theory Spec2Isabelle
  imports Main "HOL-Library.Sublist" "HOL-Library.List_Lexorder" "HOL-Library.Char_ord"
begin

section \<open>Python values and built-ins used by \<^verbatim>\<open>pyboolnet/trap_spaces.py\<close>\<close>

text \<open>
  A Python \<^verbatim>\<open>dict\<close> keeps its items in insertion order, and the encoder iterates over
  \<^verbatim>\<open>p.items()\<close>, so a dict is an association list (keys distinct). Python \<^verbatim>\<open>int\<close> is
  \<^typ>\<open>int\<close>; a \<^verbatim>\<open>str\<close> is a \<^typ>\<open>string\<close> whose characters are the code points below 256.
\<close>

type_synonym ('k, 'v) dict = "('k \<times> 'v) list"

text \<open>\<^verbatim>\<open>d[k] = v\<close>: an existing key keeps its position, a new key goes last.\<close>

fun dict_set :: "('k, 'v) dict \<Rightarrow> 'k \<Rightarrow> 'v \<Rightarrow> ('k, 'v) dict" where
  "dict_set [] k v = [(k, v)]"
| "dict_set ((k', v') # d) k v =
     (if k' = k then (k', v) # d else (k', v') # dict_set d k v)"

text \<open>\<^verbatim>\<open>dict(pairs)\<close>: the pairs are stored from left to right.\<close>

definition dict_of :: "('k \<times> 'v) list \<Rightarrow> ('k, 'v) dict" where
  "dict_of ps = foldl (\<lambda>d (k, v). dict_set d k v) [] ps"

text \<open>\<^verbatim>\<open>k in d\<close>.\<close>

definition dict_has :: "('k, 'v) dict \<Rightarrow> 'k \<Rightarrow> bool" where
  "dict_has d k = (k \<in> set (map fst d))"

text \<open>\<^verbatim>\<open>'%i' % n\<close> and \<^verbatim>\<open>str(n)\<close>: the decimal numeral of an integer.\<close>

definition digit_char :: "nat \<Rightarrow> char" where
  "digit_char d = char_of (48 + d)"

fun show_nat :: "nat \<Rightarrow> string" where
  "show_nat n =
     (if n < 10 then [digit_char n] else show_nat (n div 10) @ [digit_char (n mod 10)])"

declare show_nat.simps [simp del]

definition show_int :: "int \<Rightarrow> string" where
  "show_int i = (if i < 0 then CHR ''-'' # show_nat (nat (- i)) else show_nat (nat i))"

text \<open>\<^verbatim>\<open>sep.join(xs)\<close>.\<close>

fun py_join :: "string \<Rightarrow> string list \<Rightarrow> string" where
  "py_join sep [] = []"
| "py_join sep [x] = x"
| "py_join sep (x # y # ys) = x @ sep @ py_join sep (y # ys)"

text \<open>\<^verbatim>\<open>s.split(c)\<close> for a one-character separator: empty fields are kept.\<close>

fun split_on :: "char \<Rightarrow> string \<Rightarrow> string list" where
  "split_on c [] = [ [] ]"
| "split_on c (x # xs) =
     (if x = c then [] # split_on c xs
      else (case split_on c xs of [] \<Rightarrow> [ [x] ] | w # ws \<Rightarrow> (x # w) # ws))"

text \<open>
  \<^verbatim>\<open>s.split()\<close>: fields are separated by runs of white space, and no field is empty.
  The white-space characters below code point 256 are those of \<^verbatim>\<open>str.isspace\<close>.
\<close>

definition is_space :: "char \<Rightarrow> bool" where
  "is_space c = ((of_char c :: nat) \<in> {9, 10, 11, 12, 13, 28, 29, 30, 31, 32, 133, 160})"

fun py_split_from :: "string \<Rightarrow> string \<Rightarrow> string list" where
  "py_split_from w [] = (if w = [] then [] else [w])"
| "py_split_from w (c # cs) =
     (if is_space c then (if w = [] then py_split_from [] cs else w # py_split_from [] cs)
      else py_split_from (w @ [c]) cs)"

definition py_split :: "string \<Rightarrow> string list" where
  "py_split s = py_split_from [] s"

text \<open>
  \<^verbatim>\<open>int(s)\<close>: white space is stripped, then an optional sign and decimal digits, where
  single underscores may stand between digits. \<open>None\<close> is \<^verbatim>\<open>ValueError\<close>.
\<close>

definition is_digit :: "char \<Rightarrow> bool" where
  "is_digit c = (48 \<le> (of_char c :: nat) \<and> (of_char c :: nat) \<le> 57)"

fun int_digits :: "nat \<Rightarrow> bool \<Rightarrow> string \<Rightarrow> nat option" where
  "int_digits acc prev [] = (if prev then Some acc else None)"
| "int_digits acc prev (c # cs) =
     (if is_digit c then int_digits (10 * acc + (of_char c - 48)) True cs
      else if c = CHR ''_'' \<and> prev then int_digits acc False cs
      else None)"

definition py_strip :: "string \<Rightarrow> string" where
  "py_strip s = rev (dropWhile is_space (rev (dropWhile is_space s)))"

definition py_int :: "string \<Rightarrow> int option" where
  "py_int s =
     (case py_strip s of
        [] \<Rightarrow> None
      | c # cs \<Rightarrow>
          if c = CHR ''-'' then map_option (\<lambda>n. - int n) (int_digits 0 False cs)
          else if c = CHR ''+'' then map_option int (int_digits 0 False cs)
          else map_option int (int_digits 0 False (c # cs)))"

text \<open>
  \<^verbatim>\<open>repr\<close> of a string, of a tuple of two integers and of a list of strings.
  A string is quoted with \<^verbatim>\<open>'\<close> unless it holds a \<^verbatim>\<open>'\<close> and no \<^verbatim>\<open>"\<close>; the quote, the
  backslash and the characters that are not printable are escaped.
\<close>

definition hex_digit :: "nat \<Rightarrow> char" where
  "hex_digit d = (if d < 10 then char_of (48 + d) else char_of (87 + d))"

definition printable :: "char \<Rightarrow> bool" where
  "printable c =
     (let n = (of_char c :: nat) in (32 \<le> n \<and> n < 127) \<or> (161 \<le> n \<and> n \<noteq> 173))"

definition repr_char :: "char \<Rightarrow> char \<Rightarrow> string" where
  "repr_char quote c =
     (if c = quote \<or> c = CHR 0x5C then [CHR 0x5C, c]
      else if c = CHR 0x09 then [CHR 0x5C, CHR ''t'']
      else if c = CHR 0x0A then [CHR 0x5C, CHR ''n'']
      else if c = CHR 0x0D then [CHR 0x5C, CHR ''r'']
      else if printable c then [c]
      else [CHR 0x5C, CHR ''x'', hex_digit (of_char c div 16), hex_digit (of_char c mod 16)])"

definition repr_str :: "string \<Rightarrow> string" where
  "repr_str s =
     (let quote = (if CHR 0x27 \<in> set s \<and> CHR 0x22 \<notin> set s then CHR 0x22 else CHR 0x27)
      in [quote] @ concat (map (repr_char quote) s) @ [quote])"

definition repr_bounds :: "int \<times> int \<Rightarrow> string" where
  "repr_bounds b = ''('' @ show_int (fst b) @ '', '' @ show_int (snd b) @ '')''"

definition repr_names :: "string list \<Rightarrow> string" where
  "repr_names xs = ''['' @ py_join '', '' (map repr_str xs) @ '']''"

section \<open>Data model\<close>

text \<open>
  A subspace maps names to values. A prime is a subspace; \<^verbatim>\<open>primes[name]\<close> is the pair of
  the primes of value 0 and the primes of value 1.
\<close>

type_synonym subspace = "(string, int) dict"

type_synonym prime = subspace

type_synonym primes = "(string, prime list \<times> prime list) dict"

text \<open>What a query returns: subspaces or circuit/percolation pairs, as dicts or strings.\<close>

datatype solution =
    Sub subspace
  | Circ subspace subspace
  | SubStr string
  | CircStr string string

text \<open>A bound is an integer or the shortcut \<^verbatim>\<open>"n"\<close> for the number of variables.\<close>

datatype bound = N | B int

text \<open>The exceptions the module can end with; \<^verbatim>\<open>sys.exit()\<close> raises \<open>SystemExit\<close>.\<close>

datatype error =
    SystemExit
  | AssertionError
  | TypeError
  | IndexError
  | ValueError
  | OSError
  | ProcessError string

text \<open>What is logged: the level and the message, with the objects a message formats.\<close>

datatype level = Debug | Info | Error

datatype message =
    Text string
  | Solutions "solution list"
  | UnknownNames "string set"
  | Raised error

text \<open>The world outside: the log and the files that were written.\<close>

record world =
  logged :: "(level \<times> message) list"
  files :: "(string, string) dict"

definition log_to :: "level \<Rightarrow> message \<Rightarrow> world \<Rightarrow> world" where
  "log_to l m w = w\<lparr>logged := logged w @ [(l, m)]\<rparr>"

text \<open>
  What the module takes from outside \<^verbatim>\<open>trap_spaces.py\<close>: the formatted date of today,
  which paths can be opened for writing, the two commands, the run of the
  grounder piped into the solver (the commands, the text on the grounder's standard input
  if any, and the files; it gives the solver's output and diagnostics or raises), and the
  functions imported from \<^verbatim>\<open>prime_implicants\<close> and \<^verbatim>\<open>state_space\<close>.
\<close>

record env =
  today :: string
  writable :: "string \<Rightarrow> bool"
  CMD_GRINGO :: string
  CMD_CLASP :: string
  run_pipeline ::
    "string list \<Rightarrow> string list \<Rightarrow> string option \<Rightarrow> (string, string) dict
       \<Rightarrow> error + (string \<times> string)"
  active_primes :: "primes \<Rightarrow> subspace \<Rightarrow> primes"
  subspace2str :: "primes \<Rightarrow> subspace \<Rightarrow> string"
  subspace2dict :: "primes \<Rightarrow> string \<Rightarrow> subspace"
  percolate_and_keep_constants :: "primes \<Rightarrow> subspace"

section \<open>The encoder: \<^verbatim>\<open>primes2asp\<close>\<close>

definition nl :: string where
  "nl = [CHR 0x0A]"

text \<open>One hyper-arc: its target fact and one source fact per item of the prime.\<close>

definition hyper :: "string \<Rightarrow> int \<Rightarrow> prime \<Rightarrow> int \<Rightarrow> string" where
  "hyper name value p index =
     py_join '' ''
       ((''target(\"'' @ name @ ''\",'' @ show_int value @ '',a'' @ show_int index @ '').'')
        # map (\<lambda>(n2, v2). ''source(\"'' @ n2 @ ''\",'' @ show_int v2 @ '',a''
                              @ show_int index @ '').'') p)"

text \<open>
  The three nested loops; the state of each is the pair of \<^verbatim>\<open>index\<close> and \<^verbatim>\<open>lines\<close>.
  \<^verbatim>\<open>primes[name]\<close> cannot raise \<^verbatim>\<open>KeyError\<close>, since the names are the keys of \<^verbatim>\<open>primes\<close>.
\<close>

fun arcs_of_primes :: "string \<Rightarrow> int \<Rightarrow> prime list \<Rightarrow> int \<times> string list \<Rightarrow> int \<times> string list"
  where
  "arcs_of_primes name value [] (index, lines) = (index, lines)"
| "arcs_of_primes name value (p # ps) (index, lines) =
     arcs_of_primes name value ps (index + 1, lines @ [hyper name value p (index + 1)])"

definition arcs_of_name :: "primes \<Rightarrow> string \<Rightarrow> int \<times> string list \<Rightarrow> int \<times> string list" where
  "arcs_of_name primes name s =
     (case map_of primes name of
        None \<Rightarrow> s
      | Some (p0, p1) \<Rightarrow> arcs_of_primes name 1 p1 (arcs_of_primes name 0 p0 s))"

fun arcs_of_names :: "primes \<Rightarrow> string list \<Rightarrow> int \<times> string list \<Rightarrow> int \<times> string list" where
  "arcs_of_names primes [] s = s"
| "arcs_of_names primes (name # names) s =
     arcs_of_names primes names (arcs_of_name primes name s)"

definition created_on :: "string \<Rightarrow> string" where
  "created_on date = ''% created on '' @ date @ '' using PyBoolNet''"

definition header :: "string \<Rightarrow> string list" where
  "header date =
     [created_on date,
      ''% PyBoolNet is available at https://github.com/hklarner/PyBoolNet'',
      '''',
      ''% encoding of prime implicants as hyper-arcs that consist of a unique \"target\" and (possibly) several \"sources\".'',
      ''% \"target\" and \"source\" are triplets that consist of a variable name, an activity and a unique arc-identifier. '',
      '''']"

definition problem :: "string list" where
  "problem =
     ['''',
      ''% generator: \"in_set(ID)\" specifies which arcs are chosen for a trap set (ID is unique for target(_,_,_)).'',
      ''{in_set(ID) : target(V,S,ID)}.'',
      '''',
      ''% consistency constraint'',
      '':- in_set(ID1), in_set(ID2), target(V,1,ID1), target(V,0,ID2).'',
      '''',
      ''% stability constraint'',
      '':- in_set(ID1), source(V,S,ID1), not in_set(ID2) : target(V,S,ID2).'',
      '''']"

definition closure :: "string option \<Rightarrow> string list" where
  "closure type' =
     (if type' \<in> {Some ''percolated'', Some ''circuits''} then
        [''% percolation constraint.'',
         ''% ensure that if all sources of a prime are hit then it must belong to the solution.'',
         ''in_set(ID) :- target(V,S,ID), hit(V1,S1) : source(V1,S1,ID).'']
      else
        [''% bijection constraint (between asp solutions and trap spaces)'',
         ''% to avoid the repetition of equivalent solutions we add all prime implicants'',
         ''% that agree with the current solution.'',
         ''in_set(ID) :- target(V,S,ID), hit(V,S), hit(V1,S1) : source(V1,S1,ID).''])"

definition circuits_rules :: "string option \<Rightarrow> string list" where
  "circuits_rules type' =
     (if type' = Some ''circuits'' then
        ['''',
         ''% circuits constraint, distinguishes between circuit nodes and percolated nodes'',
         ''upstream(V1,V2) :- in_set(ID), target(V1,S1,ID), source(V2,S2,ID).'',
         ''upstream(V1,V2) :- upstream(V1,V3), upstream(V3,V2).'',
         ''percolated(V1) :- hit(V1,S), not upstream(V1,V1).'']
      else [])"

definition hit_rule :: "string list" where
  "hit_rule =
     ['''',
      ''% \"hit\" captures the stable variables and their activities.'',
      ''hit(V,S) :- in_set(ID), target(V,S,ID).'']"

definition lower_constraint :: "int \<Rightarrow> string" where
  "lower_constraint lo = '':- {hit(V,S)} '' @ show_int (lo - 1) @ ''.''"

definition upper_constraint :: "int \<Rightarrow> string" where
  "upper_constraint hi = '':- '' @ show_int (hi + 1) @ '' {hit(V,S)}.''"

definition cardinality :: "(int \<times> int) option \<Rightarrow> string list" where
  "cardinality bounds =
     (case bounds of
        None \<Rightarrow> []
      | Some (lo, hi) \<Rightarrow>
          ['''',
           ''% cardinality constraint (enforced by \"Bounds='' @ repr_bounds (lo, hi) @ ''\")'']
          @ (if lo > 0 then [lower_constraint lo] else [])
          @ [upper_constraint hi])"

definition extra :: "string list option \<Rightarrow> string list" where
  "extra extra_lines = (case extra_lines of None \<Rightarrow> [] | Some ls \<Rightarrow> ls)"

text \<open>
  The output directives. \<^verbatim>\<open>if project:\<close> holds for a list that is not empty; \<^verbatim>\<open>None\<close> and the
  empty list go on to the \<^verbatim>\<open>elif\<close>.
\<close>

definition show_directives :: "string list option \<Rightarrow> string option \<Rightarrow> string list" where
  "show_directives project type' =
     (case project of
        Some (name # names) \<Rightarrow>
          ['''',
           ''% show projection (enforced by \"Project='' @ repr_names (sort (name # names))
             @ ''\").'']
          @ [''#show.'']
          @ map (\<lambda>n. ''#show hit(\"'' @ n @ ''\",S) : hit(\"'' @ n @ ''\",S).'') (name # names)
      | _ \<Rightarrow>
          if type' = Some ''circuits'' then
            ['''',
             ''% show fixed nodes and distinguish between circuits and percolated'',
             ''#show percolated/1.'',
             ''#show hit/2.'']
          else
            ['''',
             ''% show fixed nodes'',
             ''#show hit/2.''])"

text \<open>\<^verbatim>\<open>if project: project = [x for x in project if x in primes]\<close>.\<close>

definition known_project :: "primes \<Rightarrow> string list option \<Rightarrow> string list option" where
  "known_project primes project =
     (case project of
        None \<Rightarrow> None
      | Some xs \<Rightarrow> Some (filter (dict_has primes) xs))"

text \<open>The list \<^verbatim>\<open>lines\<close> when it is joined.\<close>

definition asp_lines ::
  "string \<Rightarrow> primes \<Rightarrow> (int \<times> int) option \<Rightarrow> string list option \<Rightarrow> string option
     \<Rightarrow> string list option \<Rightarrow> string list" where
  "asp_lines date primes bounds project type' extra_lines =
     snd (arcs_of_names primes (sort (map fst primes)) (0, header date))
     @ problem
     @ closure type'
     @ circuits_rules type'
     @ hit_rule
     @ cardinality bounds
     @ extra extra_lines
     @ show_directives (known_project primes project) type'"

definition valid_types :: "string option set" where
  "valid_types =
     {None, Some ''max'', Some ''min'', Some ''all'', Some ''percolated'', Some ''circuits''}"

text \<open>
  \<^verbatim>\<open>primes2asp\<close>: the assertion on \<^verbatim>\<open>type_\<close> (the other three hold by the types), the text,
  and the unconditional \<^verbatim>\<open>open(fname_asp, "w")\<close>, which raises \<^verbatim>\<open>TypeError\<close> on \<^verbatim>\<open>None\<close>.
\<close>

definition primes2asp ::
  "env \<Rightarrow> world \<Rightarrow> primes \<Rightarrow> string option \<Rightarrow> (int \<times> int) option \<Rightarrow> string list option
     \<Rightarrow> string option \<Rightarrow> string list option \<Rightarrow> (error + string) \<times> world" where
  "primes2asp e w primes fname_asp bounds project type' extra_lines =
     (if type' \<notin> valid_types then (Inl AssertionError, w)
      else
        let asp_text = py_join nl (asp_lines (today e) primes bounds project type' extra_lines)
        in case fname_asp of
             None \<Rightarrow> (Inl TypeError, w)
           | Some f \<Rightarrow>
               if \<not> writable e f then (Inl OSError, w)
               else (Inr asp_text,
                     log_to Info (Text (''created '' @ f))
                       (w\<lparr>files := dict_set (files w) f asp_text\<rparr>)))"

section \<open>The solver pipeline and the decoder: \<^verbatim>\<open>potassco_handle\<close>\<close>

text \<open>\<^verbatim>\<open>tuple([len(primes) if x == "n" else x for x in bounds])\<close>.\<close>

fun resolve_bound :: "primes \<Rightarrow> bound \<Rightarrow> int" where
  "resolve_bound primes N = int (length primes)"
| "resolve_bound primes (B x) = x"

definition resolve_bounds :: "primes \<Rightarrow> (bound \<times> bound) option \<Rightarrow> (int \<times> int) option" where
  "resolve_bounds primes bounds =
     (case bounds of
        None \<Rightarrow> None
      | Some (lo, hi) \<Rightarrow> Some (resolve_bound primes lo, resolve_bound primes hi))"

definition params_clasp :: "string \<Rightarrow> string list" where
  "params_clasp type' =
     [''--project'']
     @ (if type' = ''max'' then [''--enum-mode=domRec'', ''--heuristic=Domain'', ''--dom-mod=5,16'']
        else if type' = ''min'' then
          [''--enum-mode=domRec'', ''--heuristic=Domain'', ''--dom-mod=3,16'']
        else [])"

text \<open>A list comprehension whose element expression can raise stops at the first error.\<close>

fun sequence :: "(error + 'a) list \<Rightarrow> error + 'a list" where
  "sequence [] = Inr []"
| "sequence (x # xs) =
     (case x of
        Inl err \<Rightarrow> Inl err
      | Inr v \<Rightarrow> (case sequence xs of Inl err \<Rightarrow> Inl err | Inr vs \<Rightarrow> Inr (v # vs)))"

text \<open>
  One fact \<^verbatim>\<open>hit("name",value)\<close>: \<^verbatim>\<open>x[4:-1].split(",")\<close>, then
  \<^verbatim>\<open>(x[0][1:-1], int(x[1]))\<close>, where \<^verbatim>\<open>x[1]\<close> raises \<^verbatim>\<open>IndexError\<close> when there is no comma and
  \<^verbatim>\<open>int\<close> raises \<^verbatim>\<open>ValueError\<close>.
\<close>

definition parse_hit :: "string \<Rightarrow> error + (string \<times> int)" where
  "parse_hit x =
     (case split_on CHR '','' (butlast (drop 4 x)) of
        a # b # rest \<Rightarrow>
          (case py_int b of None \<Rightarrow> Inl ValueError | Some v \<Rightarrow> Inr (butlast (drop 1 a), v))
      | _ \<Rightarrow> Inl IndexError)"

text \<open>The line after an \<^verbatim>\<open>Answer\<close> line, for the variants other than circuits.\<close>

definition decode_subspace :: "string \<Rightarrow> error + solution" where
  "decode_subspace line =
     (case sequence (map parse_hit (py_split line)) of
        Inl err \<Rightarrow> Inl err
      | Inr d \<Rightarrow> Inr (Sub (dict_of d)))"

text \<open>
  The same for circuits: the hit facts, the names \<^verbatim>\<open>x[12:-2]\<close> of the percolated facts,
  and the split of the hit facts into percolated and circuit nodes.
\<close>

definition decode_circuit :: "string \<Rightarrow> error + solution" where
  "decode_circuit line =
     (case sequence (map parse_hit (filter (sublist ''hit'') (py_split line))) of
        Inl err \<Rightarrow> Inl err
      | Inr tspace \<Rightarrow>
          let names = map (\<lambda>x. butlast (butlast (drop 12 x)))
                        (filter (sublist ''perc'') (py_split line));
              perc = dict_of (filter (\<lambda>x. fst x \<in> set names) tspace);
              circ = dict_of (filter (\<lambda>x. \<not> dict_has perc (fst x)) tspace)
          in Inr (Circ circ perc))"

text \<open>
  The loop \<^verbatim>\<open>while lines and len(result) < max_output\<close>. The second \<^verbatim>\<open>lines.pop(0)\<close>
  raises \<^verbatim>\<open>IndexError\<close> when the \<^verbatim>\<open>Answer\<close> line is the last one. The two loops of the
  source differ in the decoding of the answer line only, which is the parameter \<open>dec\<close>.
\<close>

fun answers ::
  "(string \<Rightarrow> error + solution) \<Rightarrow> string list \<Rightarrow> int \<Rightarrow> solution list
     \<Rightarrow> error + solution list" where
  "answers dec [] max_output result = Inr result"
| "answers dec (line # lines) max_output result =
     (if \<not> int (length result) < max_output then Inr result
      else if take 6 line = ''Answer'' then
        (case lines of
           [] \<Rightarrow> Inl IndexError
         | line' # lines' \<Rightarrow>
             (case dec line' of
                Inl err \<Rightarrow> Inl err
              | Inr s \<Rightarrow> answers dec lines' max_output (result @ [s])))
      else answers dec lines max_output result)"

text \<open>The notice after the loop.\<close>

definition possibly_more :: "int \<Rightarrow> (level \<times> message) list" where
  "possibly_more max_output =
     [(Info, Text (''There are possibly more than '' @ show_int max_output @ '' trap spaces.'')),
      (Info, Text ''Increase MaxOutput to find out.'')]"

definition note_truncation :: "int \<Rightarrow> solution list \<Rightarrow> world \<Rightarrow> world" where
  "note_truncation max_output result w =
     (if int (length result) = max_output
      then w\<lparr>logged := logged w @ possibly_more max_output\<rparr> else w)"

text \<open>Lines 547 to 582: the split of the output, the loop and the notice.\<close>

definition decode :: "string \<Rightarrow> string \<Rightarrow> int \<Rightarrow> world \<Rightarrow> (error + solution list) \<times> world"
  where
  "decode type' output max_output w =
     (case answers (if type' = ''circuits'' then decode_circuit else decode_subspace)
             (split_on CHR 0x0A output) max_output [] of
        Inl err \<Rightarrow> (Inl err, w)
      | Inr result \<Rightarrow> (Inr result, note_truncation max_output result w))"

text \<open>The conversion of the result when \<^verbatim>\<open>representation == "str"\<close>.\<close>

fun as_str :: "env \<Rightarrow> primes \<Rightarrow> solution \<Rightarrow> solution" where
  "as_str e primes (Sub x) = SubStr (subspace2str e primes x)"
| "as_str e primes (Circ x y) = CircStr (subspace2str e primes x) (subspace2str e primes y)"
| "as_str e primes s = s"

definition command_line :: "string list \<Rightarrow> string list \<Rightarrow> string" where
  "command_line cmd_gringo cmd_clasp = py_join '' '' (cmd_gringo @ [''|''] @ cmd_clasp)"

text \<open>
  The \<^verbatim>\<open>try\<close> block of \<^verbatim>\<open>potassco_handle\<close>, the test for \<^verbatim>\<open>"ERROR"\<close> in the diagnostics
  and the debug log; it gives the solver's output. The exception of the \<^verbatim>\<open>try\<close> block is
  taken to be raised once both commands are bound, so that the handler can format them.
\<close>

definition run_solver ::
  "env \<Rightarrow> world \<Rightarrow> string \<Rightarrow> int \<Rightarrow> string option \<Rightarrow> string \<Rightarrow> (error + string) \<times> world" where
  "run_solver e w type' max_output fname_asp asp_text =
     (let cmd_gringo =
            (case fname_asp of None \<Rightarrow> [CMD_GRINGO e] | Some f \<Rightarrow> [CMD_GRINGO e, f]);
          cmd_clasp = [CMD_CLASP e, ''--models='' @ show_int max_output] @ params_clasp type';
          stdin = (case fname_asp of None \<Rightarrow> Some asp_text | Some f \<Rightarrow> None)
      in case run_pipeline e cmd_gringo cmd_clasp stdin (files w) of
           Inl err \<Rightarrow>
             (Inl err,
              w\<lparr>logged := logged w
                 @ [(Error, Text asp_text), (Error, Raised err),
                    (Error, Text ''Call to gringo and / or clasp failed.'')]
                 @ (if fname_asp \<noteq> None
                    then [(Info, Text (''command: '' @ command_line cmd_gringo cmd_clasp))]
                    else [])\<rparr>)
         | Inr (output, diagnostics) \<Rightarrow>
             if sublist ''ERROR'' diagnostics then
               (Inl SystemExit,
                w\<lparr>logged := logged w
                   @ [(Error, Text ''Call to gringo and / or clasp failed.'')]
                   @ (if fname_asp \<noteq> None
                      then [(Error, Text (''asp file: '' @ asp_text))] else [])
                   @ [(Error, Text (''command: '' @ command_line cmd_gringo cmd_clasp)),
                      (Error, Text (''error: '' @ diagnostics))]\<rparr>)
             else
               (Inr output,
                w\<lparr>logged := logged w
                   @ [(Debug, Text asp_text),
                      (Debug, Text (''cmd_gringo='' @ py_join '' '' cmd_gringo)),
                      (Debug, Text (''cmd_clasp='' @ py_join '' '' cmd_clasp)),
                      (Debug, Text diagnostics),
                      (Debug, Text output)]\<rparr>))"

definition potassco_handle ::
  "env \<Rightarrow> world \<Rightarrow> primes \<Rightarrow> string \<Rightarrow> (bound \<times> bound) option \<Rightarrow> string list option \<Rightarrow> int
     \<Rightarrow> string option \<Rightarrow> string \<Rightarrow> string list option \<Rightarrow> (error + solution list) \<times> world"
  where
  "potassco_handle e w primes type' bounds project max_output fname_asp representation
      extra_lines =
     (if type' \<notin> {''max'', ''min'', ''all'', ''percolated'', ''circuits''} then
        (Inl SystemExit, log_to Error (Text (''unknown trap space type: type='' @ type')) w)
      else if representation \<notin> {''str'', ''dict''} then
        (Inl SystemExit,
         log_to Error
           (Text (''unknown trap space representation: representation='' @ representation)) w)
      else
        (case primes2asp e w primes fname_asp (resolve_bounds primes bounds) project
                (Some type') extra_lines of
           (Inl err, w1) \<Rightarrow> (Inl err, w1)
         | (Inr asp_text, w1) \<Rightarrow>
             (case run_solver e w1 type' max_output fname_asp asp_text of
                (Inl err, w2) \<Rightarrow> (Inl err, w2)
              | (Inr output, w2) \<Rightarrow>
                  (case decode type' output max_output w2 of
                     (Inl err, w3) \<Rightarrow> (Inl err, w3)
                   | (Inr result, w3) \<Rightarrow>
                       (Inr (if representation = ''str''
                             then map (as_str e primes) result else result), w3)))))"

section \<open>The queries\<close>

text \<open>A subspace argument is a dict or a string; \<^verbatim>\<open>len\<close> and the truth value read either.\<close>

datatype subspace_arg = AsDict subspace | AsStr string

fun len :: "subspace_arg \<Rightarrow> nat" where
  "len (AsDict d) = length d"
| "len (AsStr s) = length s"

fun to_dict :: "env \<Rightarrow> primes \<Rightarrow> subspace_arg \<Rightarrow> subspace" where
  "to_dict e primes (AsDict d) = d"
| "to_dict e primes (AsStr s) = subspace2dict e primes s"

definition uniqueness_errors :: "solution list \<Rightarrow> (level \<times> message) list" where
  "uniqueness_errors tspaces =
     [(Error, Text ''the smallest trap space containing a state (or other space) must be unique!''),
      (Error, Text (''found '' @ show_int (int (length tspaces)) @ '' smallest tspaces.'')),
      (Error, Solutions tspaces)]"

definition trapspaces_that_intersect_subspace ::
  "env \<Rightarrow> world \<Rightarrow> primes \<Rightarrow> subspace_arg \<Rightarrow> string \<Rightarrow> string option \<Rightarrow> string \<Rightarrow> int
     \<Rightarrow> (error + solution list) \<times> world" where
  "trapspaces_that_intersect_subspace e w primes subspace type' fname_asp representation
      max_output =
     (if \<not> length primes \<ge> len subspace then (Inl AssertionError, w)
      else
        let sub = to_dict e primes subspace;
            relevant_primes = active_primes e primes sub;
            bounds = (if type' = ''max'' then Some (B 1, N) else None)
        in case potassco_handle e w relevant_primes type' bounds (Some []) max_output fname_asp
                  representation None of
             (Inl err, w1) \<Rightarrow> (Inl err, w1)
           | (Inr tspaces, w1) \<Rightarrow>
               if tspaces = [] then
                 (Inr [if representation = ''str'' then SubStr (subspace2str e primes [])
                       else Sub []], w1)
               else if length sub = length primes \<and> type' = ''min'' then
                 (if length tspaces > 1 then
                    (Inl SystemExit, w1\<lparr>logged := logged w1 @ uniqueness_errors tspaces\<rparr>)
                  else (Inr [last tspaces], w1))
               else (Inr tspaces, w1))"

definition trapspaces_that_contain_state ::
  "env \<Rightarrow> world \<Rightarrow> primes \<Rightarrow> subspace_arg \<Rightarrow> string \<Rightarrow> string option \<Rightarrow> string \<Rightarrow> int
     \<Rightarrow> (error + solution list) \<times> world" where
  "trapspaces_that_contain_state e w primes state type' fname_asp representation max_output =
     trapspaces_that_intersect_subspace e w primes state type' fname_asp representation
       max_output"

definition smallest_trapspace ::
  "env \<Rightarrow> world \<Rightarrow> primes \<Rightarrow> subspace_arg \<Rightarrow> string \<Rightarrow> (error + solution list) \<times> world" where
  "smallest_trapspace e w primes state representation =
     trapspaces_that_contain_state e w primes state ''min'' None representation 1000"




definition circuits ::
  "env \<Rightarrow> world \<Rightarrow> primes \<Rightarrow> int \<Rightarrow> string option \<Rightarrow> string
     \<Rightarrow> (error + solution list) \<times> world" where
  "circuits e w primes max_output fname_asp representation =
     potassco_handle e w primes ''circuits'' (Some (B 0, N)) None max_output fname_asp
       representation None"

definition steady_states ::
  "env \<Rightarrow> world \<Rightarrow> primes \<Rightarrow> int \<Rightarrow> string option \<Rightarrow> string
     \<Rightarrow> (error + solution list) \<times> world" where
  "steady_states e w primes max_output fname_asp representation =
     potassco_handle e w primes ''all'' (Some (N, N)) (Some []) max_output fname_asp
       representation None"

definition trap_spaces_bounded ::
  "env \<Rightarrow> world \<Rightarrow> primes \<Rightarrow> string \<Rightarrow> (bound \<times> bound) option \<Rightarrow> int \<Rightarrow> string option
     \<Rightarrow> (error + solution list) \<times> world" where
  "trap_spaces_bounded e w primes type' bounds max_output fname_asp =
     potassco_handle e w primes type' bounds None max_output fname_asp ''dict'' None"


section \<open>Percolation of a subspace: \<^verbatim>\<open>percolate_trapspace\<close>\<close>

text \<open>
  The caller and the function share the \<^verbatim>\<open>primes\<close> object, so the objects live in a heap and
  an argument is a reference into it. Every reference holds an object; \<open>next_ref\<close> is the
  first reference that is not in use.
\<close>

type_synonym ref = nat

record heap =
  next_ref :: ref
  objects :: "ref \<Rightarrow> primes"

text \<open>
  Modelled from the spec: \<^verbatim>\<open>create_constants\<close> of \<^verbatim>\<open>pyboolnet.prime_implicants\<close>, which is not
  among the sources. The spec says that percolating a subspace "derives constants from the
  subspace" and "derives a new, separate structure", which "must not mutate the caller's
  original unless explicitly requested in place". So every variable of the subspace gets the
  primes of a constant (the empty prime for its value, no prime for the other value); with
  \<^verbatim>\<open>in_place\<close> this is done in the object that was passed, otherwise in a copy of it.
\<close>

definition constant_primes :: "int \<Rightarrow> prime list \<times> prime list" where
  "constant_primes value = (if value = 0 then ([ [] ], []) else ([], [ [] ]))"

definition with_constants :: "primes \<Rightarrow> subspace \<Rightarrow> primes" where
  "with_constants primes constants =
     foldl (\<lambda>d (name, value). dict_set d name (constant_primes value)) primes constants"

definition create_constants :: "heap \<Rightarrow> ref \<Rightarrow> subspace \<Rightarrow> bool \<Rightarrow> heap \<times> ref" where
  "create_constants h primes constants in_place =
     (if in_place then
        (h\<lparr>objects := (objects h)(primes := with_constants (objects h primes) constants)\<rparr>,
         primes)
      else
        (h\<lparr>next_ref := Suc (next_ref h),
           objects := (objects h)(next_ref h := with_constants (objects h primes) constants)\<rparr>,
         next_ref h))"

text \<open>
  \<^verbatim>\<open>percolate_trapspace\<close> calls \<^verbatim>\<open>create_constants(primes, trap_space, in_place=True)\<close> and
  percolates the primes it gets back. The result is the constants and the heap after the call.
\<close>

definition percolate_trapspace :: "env \<Rightarrow> heap \<Rightarrow> ref \<Rightarrow> subspace \<Rightarrow> subspace \<times> heap" where
  "percolate_trapspace e h primes trap_space =
     (case create_constants h primes trap_space True of
        (h1, primes1) \<Rightarrow> (percolate_and_keep_constants e (objects h1 primes1), h1))"

section \<open>The order of the arcs, as the specification words it\<close>

text \<open>
  The arcs of a network, "iterating variables in a deterministic (lexicographic) order and
  values in a fixed order (0 then 1)": for each name in sorted order, its primes of value 0
  and then its primes of value 1.
\<close>

definition arcs_for :: "primes \<Rightarrow> string \<Rightarrow> (string \<times> int \<times> prime) list" where
  "arcs_for primes name =
     (case map_of primes name of
        None \<Rightarrow> []
      | Some (p0, p1) \<Rightarrow> map (\<lambda>p. (name, 0, p)) p0 @ map (\<lambda>p. (name, 1, p)) p1)"

definition arcs_in_order :: "primes \<Rightarrow> (string \<times> int \<times> prime) list" where
  "arcs_in_order primes = concat (map (arcs_for primes) (sort (map fst primes)))"

text \<open>The line of the \<open>k\<close>-th arc of that order (counted from 0): its identifier is \<open>k + 1\<close>.\<close>

definition arc_line :: "nat \<times> string \<times> int \<times> prime \<Rightarrow> string" where
  "arc_line a = (case a of (k, name, value, p) \<Rightarrow> hyper name value p (int k + 1))"

text \<open>The lines of the program after its first line.\<close>

definition body ::
  "primes \<Rightarrow> (int \<times> int) option \<Rightarrow> string list option \<Rightarrow> string option
     \<Rightarrow> string list option \<Rightarrow> string list" where
  "body primes bounds project type' extra_lines =
     tl (asp_lines [] primes bounds project type' extra_lines)"

section \<open>A small network and a scripted solver\<close>

text \<open>
  The network \<^verbatim>\<open>a' = a\<close>, an environment whose solver prints two answers, one whose solver
  prints none, and the same environment a day later.
\<close>

definition net_a :: primes where
  "net_a = [(''a'', ([ [(''a'', 0)] ], [ [(''a'', 1)] ]))]"

definition two_answers :: string where
  "two_answers =
     ''Answer: 1'' @ nl @ ''hit(\"a\",1)'' @ nl @ ''Answer: 2'' @ nl @ ''hit(\"a\",0)'' @ nl"

definition env_two :: env where
  "env_two =
     \<lparr>today = ''04. Nov. 2026'', writable = (\<lambda>f. True), CMD_GRINGO = ''gringo'',
      CMD_CLASP = ''clasp'', run_pipeline = (\<lambda>g c i fs. Inr (two_answers, '''')),
      active_primes = (\<lambda>p s. p), subspace2str = (\<lambda>p s. ''-''),
      subspace2dict = (\<lambda>p s. []), percolate_and_keep_constants = (\<lambda>p. [])\<rparr>"

definition env_none :: env where
  "env_none = env_two\<lparr>run_pipeline := (\<lambda>g c i fs. Inr (''UNSATISFIABLE'', ''''))\<rparr>"

definition env_next_day :: env where
  "env_next_day = env_two\<lparr>today := ''05. Nov. 2026''\<rparr>"

definition world0 :: world where
  "world0 = \<lparr>logged = [], files = []\<rparr>"

text \<open>A heap whose only object in use, at the reference 0, is that network.\<close>

definition heap_a :: heap where
  "heap_a = \<lparr>next_ref = 1, objects = (\<lambda>r. net_a)\<rparr>"

section \<open>Helper lemmas\<close>

subsection \<open>Joining and splitting\<close>

lemma sublist_join: "l \<in> set ls \<Longrightarrow> sublist l (py_join sep ls)"
proof (induction sep ls rule: py_join.induct)
  case (1 sep)
  then show ?case by simp
next
  case (2 sep x)
  then show ?case by simp
next
  case (3 sep x y ys)
  show ?case
  proof (cases "l = x")
    case True
    then show ?thesis by simp
  next
    case False
    with 3 have "sublist l (py_join sep (y # ys))" by simp
    then obtain ps ss where "py_join sep (y # ys) = ps @ l @ ss"
      by (auto simp: sublist_def)
    then have "py_join sep (x # y # ys) = (x @ sep @ ps) @ l @ ss" by simp
    then show ?thesis unfolding sublist_def by blast
  qed
qed

lemma py_join_first: "take (length x) (py_join sep (x # rest)) = x"
  by (cases rest) simp_all

lemma split_on_nonempty: "split_on c xs \<noteq> []"
  by (induction xs) (auto split: list.splits)

lemma split_on_append: "split_on c (xs @ c # ys) = split_on c xs @ split_on c ys"
proof (induction xs)
  case Nil
  then show ?case by simp
next
  case (Cons x xs)
  then show ?case using split_on_nonempty [of c xs] by (cases "split_on c xs") auto
qed

subsection \<open>The encoder\<close>

lemma primes2asp_Some:
  "type' \<in> valid_types \<Longrightarrow> writable e f \<Longrightarrow>
   primes2asp e w primes (Some f) bounds project type' extra_lines
     = (Inr (py_join nl (asp_lines (today e) primes bounds project type' extra_lines)),
        log_to Info (Text (''created '' @ f))
          (w\<lparr>files := dict_set (files w) f
                (py_join nl (asp_lines (today e) primes bounds project type' extra_lines))\<rparr>))"
  by (simp add: primes2asp_def Let_def)

lemma primes2asp_Inr:
  "primes2asp e w primes fname_asp bounds project type' extra_lines = (Inr text, w')
   \<Longrightarrow> text = py_join nl (asp_lines (today e) primes bounds project type' extra_lines)"
  by (auto simp: primes2asp_def Let_def split: if_splits option.splits)

lemma cardinality_upper:
  "upper_constraint hi \<in> set (asp_lines d primes (Some (lo, hi)) project type' extra_lines)"
  by (simp add: asp_lines_def cardinality_def)

lemma cardinality_lower:
  "0 < lo \<Longrightarrow>
   lower_constraint lo \<in> set (asp_lines d primes (Some (lo, hi)) project type' extra_lines)"
  by (simp add: asp_lines_def cardinality_def)


text \<open>The three loops number the arcs of \<^const>\<open>arcs_in_order\<close> from the index they start with.\<close>

lemma arcs_of_primes_enumerate:
  "arcs_of_primes name value ps (int i, ls) =
     (int (i + length ps),
      ls @ map arc_line (enumerate i (map (\<lambda>p. (name, value, p)) ps)))"
proof (induction ps arbitrary: i ls)
  case Nil
  then show ?case by simp
next
  case (Cons p ps)
  have "arcs_of_primes name value (p # ps) (int i, ls)
        = arcs_of_primes name value ps (int (Suc i), ls @ [hyper name value p (int i + 1)])"
    by (simp add: add.commute)
  also have "\<dots> = (int (Suc i + length ps),
       (ls @ [hyper name value p (int i + 1)])
       @ map arc_line (enumerate (Suc i) (map (\<lambda>p. (name, value, p)) ps)))"
    by (rule Cons.IH)
  finally show ?case by (simp add: arc_line_def)
qed

lemma arcs_of_name_enumerate:
  "arcs_of_name primes name (int i, ls) =
     (int (i + length (arcs_for primes name)),
      ls @ map arc_line (enumerate i (arcs_for primes name)))"
proof (cases "map_of primes name")
  case None
  then show ?thesis by (simp add: arcs_of_name_def arcs_for_def)
next
  case (Some pp)
  obtain p0 p1 where pp: "pp = (p0, p1)" by (cases pp)
  show ?thesis
    by (simp add: arcs_of_name_def arcs_for_def Some pp arcs_of_primes_enumerate
        enumerate_append_eq add.assoc del: of_nat_add)
qed

lemma arcs_of_names_enumerate:
  "arcs_of_names primes names (int i, ls) =
     (int (i + length (concat (map (arcs_for primes) names))),
      ls @ map arc_line (enumerate i (concat (map (arcs_for primes) names))))"
proof (induction names arbitrary: i ls)
  case Nil
  then show ?case by simp
next
  case (Cons name names)
  show ?case
    by (simp add: arcs_of_name_enumerate Cons.IH enumerate_append_eq add.assoc del: of_nat_add)
qed

lemma asp_lines_arcs:
  "asp_lines date primes bounds project type' extra_lines =
     header date @ map arc_line (enumerate 0 (arcs_in_order primes))
     @ problem @ closure type' @ circuits_rules type' @ hit_rule @ cardinality bounds
     @ extra extra_lines @ show_directives (known_project primes project) type'"
  using arcs_of_names_enumerate [of primes "sort (map fst primes)" 0 "header date"]
  by (simp add: asp_lines_def arcs_in_order_def)

lemma asp_lines_body:
  "asp_lines date primes bounds project type' extra_lines
     = created_on date # body primes bounds project type' extra_lines"
  by (simp add: asp_lines_arcs header_def body_def)

lemma body_arcs:
  "take (length (arcs_in_order primes)) (drop 5 (body primes bounds project type' extra_lines))
     = map arc_line (enumerate 0 (arcs_in_order primes))"
  by (simp add: body_def asp_lines_arcs header_def)

lemma names_of_arcs_for:
  "map fst (arcs_for primes name) = replicate (length (arcs_for primes name)) name"
  by (auto simp: arcs_for_def comp_def map_replicate_const replicate_add split: option.splits)

lemma sorted_concat_replicate:
  "sorted names \<Longrightarrow> sorted (concat (map (\<lambda>name. replicate (f name) name) names))"
  by (induction names) (auto simp: sorted_append)

lemma sorted_arcs: "sorted (map fst (arcs_in_order primes))"
  using sorted_concat_replicate
    [of "sort (map fst primes)" "\<lambda>name. length (arcs_for primes name)"]
  by (simp add: arcs_in_order_def map_concat comp_def names_of_arcs_for)

subsection \<open>The decoding loop\<close>

lemma answers_at_most:
  "answers dec lines m acc = Inr result \<Longrightarrow> int (length acc) \<le> m
     \<Longrightarrow> int (length result) \<le> m"
proof (induction dec lines m acc rule: answers.induct)
  case (1 dec max_output result)
  then show ?case by simp
next
  case (2 dec line lines max_output acc)
  show ?case
  proof (cases "int (length acc) < max_output")
    case False
    with 2 show ?thesis by simp
  next
    case below: True
    show ?thesis
    proof (cases "take 6 line = ''Answer''")
      case False
      with below 2 show ?thesis by simp
    next
      case True
      show ?thesis
      proof (cases lines)
        case Nil
        with True below "2.prems" show ?thesis by simp
      next
        case (Cons line' lines')
        show ?thesis
        proof (cases "dec line'")
          case (Inl err)
          with Cons True below "2.prems" show ?thesis by simp
        next
          case (Inr s)
          with Cons True below "2.prems"
          have "answers dec lines' max_output (acc @ [s]) = Inr result" by simp
          moreover have "int (length (acc @ [s])) \<le> max_output" using below by simp
          ultimately show ?thesis
            using "2.IH"(1) [OF _ True Cons Inr] below by simp
        qed
      qed
    qed
  qed
qed

lemma answers_stop:
  "answers dec lines m acc = Inr result \<Longrightarrow> int (length result) = m
     \<Longrightarrow> answers dec (lines @ rest) m acc = Inr result"
proof (induction dec lines m acc rule: answers.induct)
  case (1 dec max_output acc)
  then have "\<not> int (length acc) < max_output" and "acc = result" by simp_all
  then show ?case by (cases rest) simp_all
next
  case (2 dec line lines max_output acc)
  show ?case
  proof (cases "int (length acc) < max_output")
    case False
    with "2.prems" show ?thesis by simp
  next
    case below: True
    show ?thesis
    proof (cases "take 6 line = ''Answer''")
      case False
      with below 2 show ?thesis by simp
    next
      case True
      show ?thesis
      proof (cases lines)
        case Nil
        with True below "2.prems" show ?thesis by simp
      next
        case (Cons line' lines')
        show ?thesis
        proof (cases "dec line'")
          case (Inl err)
          with Cons True below "2.prems" show ?thesis by simp
        next
          case (Inr s)
          with Cons True below "2.prems"
          have "answers dec lines' max_output (acc @ [s]) = Inr result" by simp
          then have "answers dec (lines' @ rest) max_output (acc @ [s]) = Inr result"
            using "2.IH"(1) [OF _ True Cons Inr] below "2.prems"(2) by simp
          with Cons True below Inr show ?thesis by simp
        qed
      qed
    qed
  qed
qed

subsection \<open>The scripted solver\<close>

lemma decode_two_answers:
  "decode ''min'' two_answers 1 w = (Inr [Sub [(''a'', 1)]], w\<lparr>logged := logged w @ possibly_more 1\<rparr>)"
  by (simp add: decode_def two_answers_def nl_def decode_subspace_def py_split_def
      parse_hit_def py_int_def py_strip_def is_space_def is_digit_def dict_of_def
      note_truncation_def)


lemma potassco_handle_none:
  "fst (potassco_handle env_none world0 net_a type' bounds (Some []) 10 (Some ''f.asp'')
          representation extra_lines)
     = (if type' \<in> {''max'', ''min'', ''all'', ''percolated'', ''circuits''}
           \<and> representation \<in> {''str'', ''dict''} then Inr [] else Inl SystemExit)"
  by (simp add: potassco_handle_def primes2asp_def valid_types_def Let_def env_none_def
      env_two_def run_solver_def decode_def)

section \<open>The claims\<close>

text \<open>
  C1, as the code has it. When bounds \<open>(lo, hi)\<close> are given, the type is valid and the file
  can be written, \<^verbatim>\<open>primes2asp\<close> returns the program text, and the text contains the
  constraint that forbids more than \<open>hi\<close> hit facts; it contains the constraint that forbids
  fewer than \<open>lo\<close> hit facts when \<open>lo > 0\<close>. When \<open>lo \<le> 0\<close> the guard
  \<^verbatim>\<open>if bounds[0] > 0\<close> leaves the lower constraint out: the cardinality block is then the
  empty line, the comment and the upper constraint.
\<close>

theorem primes2asp_cardinality:
  assumes "type' \<in> valid_types" and "writable e f"
  shows "fst (primes2asp e w primes (Some f) (Some (lo, hi)) project type' extra_lines)
           = Inr (py_join nl (asp_lines (today e) primes (Some (lo, hi)) project type' extra_lines))
       \<and> sublist (upper_constraint hi)
           (py_join nl (asp_lines (today e) primes (Some (lo, hi)) project type' extra_lines))
       \<and> (0 < lo \<longrightarrow> sublist (lower_constraint lo)
           (py_join nl (asp_lines (today e) primes (Some (lo, hi)) project type' extra_lines)))
       \<and> (\<not> 0 < lo \<longrightarrow> cardinality (Some (lo, hi)) =
             ['''',
              ''% cardinality constraint (enforced by \"Bounds='' @ repr_bounds (lo, hi) @ ''\")'',
              upper_constraint hi])"
  using assms
  by (simp add: primes2asp_Some sublist_join cardinality_upper cardinality_lower cardinality_def)

theorem primes2asp_cardinality_witness:
  "Some ''all'' \<in> valid_types \<and> writable env_two ''f.asp''
   \<and> fst (primes2asp env_two world0 net_a (Some ''f.asp'') (Some (1, 1)) None (Some ''all'') None)
       = Inr (py_join nl (asp_lines (today env_two) net_a (Some (1, 1)) None (Some ''all'') None))
   \<and> sublist '':- 2 {hit(V,S)}.''
       (py_join nl (asp_lines (today env_two) net_a (Some (1, 1)) None (Some ''all'') None))
   \<and> sublist '':- {hit(V,S)} 0.''
       (py_join nl (asp_lines (today env_two) net_a (Some (1, 1)) None (Some ''all'') None))"
proof -
  have ty: "Some ''all'' \<in> valid_types" by (simp add: valid_types_def)
  have wr: "writable env_two ''f.asp''" by (simp add: env_two_def)
  have up: "upper_constraint 1 = '':- 2 {hit(V,S)}.''"
    by code_simp
  have lo: "lower_constraint 1 = '':- {hit(V,S)} 0.''"
    by code_simp
  from primes2asp_cardinality [OF ty wr, of world0 net_a 1 1 None None] ty wr up lo
  show ?thesis by simp
qed

text \<open>
  C1 as it is stated fails for \<open>lo = 0\<close>: with the bounds \<open>(0, 1)\<close> the constraints of the
  generated program (its lines that start with \<^verbatim>\<open>:-\<close>) are the consistency constraint, the
  stability constraint and one cardinality constraint, the upper one.
\<close>

theorem bounds_zero_counterexample:
  "fst (primes2asp env_two world0 net_a (Some ''f.asp'') (Some (0, 1)) None (Some ''all'') None)
     = Inr (py_join nl (asp_lines ''04. Nov. 2026'' net_a (Some (0, 1)) None (Some ''all'') None))
   \<and> filter (prefix '':-'')
       (asp_lines ''04. Nov. 2026'' net_a (Some (0, 1)) None (Some ''all'') None)
     = ['':- in_set(ID1), in_set(ID2), target(V,1,ID1), target(V,0,ID2).'',
        '':- in_set(ID1), source(V,S,ID1), not in_set(ID2) : target(V,S,ID2).'',
        '':- 2 {hit(V,S)}.'']"
proof -
  have "fst (primes2asp env_two world0 net_a (Some ''f.asp'') (Some (0, 1)) None (Some ''all'') None)
     = Inr (py_join nl (asp_lines ''04. Nov. 2026'' net_a (Some (0, 1)) None (Some ''all'') None))"
    by (simp add: primes2asp_def valid_types_def env_two_def Let_def)
  moreover have "filter (prefix '':-'')
       (asp_lines ''04. Nov. 2026'' net_a (Some (0, 1)) None (Some ''all'') None)
     = ['':- in_set(ID1), in_set(ID2), target(V,1,ID1), target(V,0,ID2).'',
        '':- in_set(ID1), source(V,S,ID1), not in_set(ID2) : target(V,S,ID2).'',
        '':- 2 {hit(V,S)}.'']"
    by code_simp
  ultimately show ?thesis by (rule conjI)
qed

text \<open>
  C2 fails on the code: \<^verbatim>\<open>primes2asp\<close> opens \<^verbatim>\<open>fname_asp\<close> without a test for \<^verbatim>\<open>None\<close>, so with
  \<^verbatim>\<open>fname_asp = None\<close> it raises \<^verbatim>\<open>TypeError\<close> instead of returning the text, and so does every
  query through \<^verbatim>\<open>potassco_handle\<close>; nothing is written and nothing is logged.
\<close>

theorem primes2asp_without_file:
  "primes2asp e w primes None bounds project (Some ''all'') extra_lines = (Inl TypeError, w)
   \<and> fst (primes2asp e w primes None bounds project type' extra_lines)
       \<in> {Inl AssertionError, Inl TypeError}
   \<and> snd (primes2asp e w primes None bounds project type' extra_lines) = w
   \<and> potassco_handle e w primes ''all'' bounds' project max_output None ''dict'' extra_lines
     = (Inl TypeError, w)
   \<and> fst (potassco_handle e w primes option bounds' project max_output None representation
            extra_lines)
       \<in> {Inl SystemExit, Inl TypeError}"
  by (simp add: potassco_handle_def primes2asp_def valid_types_def)

text \<open>
  C3 fails on the code: \<^verbatim>\<open>percolate_trapspace\<close> asks \<^verbatim>\<open>create_constants\<close> for \<^verbatim>\<open>in_place=True\<close>,
  so the primes of the caller change. For the network \<^verbatim>\<open>a' = a\<close> and the subspace
  \<^verbatim>\<open>{"a": 1}\<close>, the object the caller passed holds the primes of the constant 1 afterwards.
\<close>

theorem percolate_trapspace_in_place:
  "objects (snd (percolate_trapspace e h primes trap_space)) primes
     = with_constants (objects h primes) trap_space
   \<and> objects (snd (percolate_trapspace e heap_a 0 [(''a'', 1)])) 0 = [(''a'', ([], [ [] ]))]
   \<and> objects (snd (percolate_trapspace e heap_a 0 [(''a'', 1)])) 0 \<noteq> objects heap_a 0"
  by (simp add: percolate_trapspace_def create_constants_def with_constants_def
      constant_primes_def heap_a_def net_a_def)



text \<open>
  C5. When the assertion on the sizes holds and the solver query of
  \<^verbatim>\<open>trapspaces_that_intersect_subspace\<close> returns no solution, the function returns the list
  whose one element is the empty subspace, as a string when the representation is
  \<^verbatim>\<open>"str"\<close> and as a dict otherwise.
\<close>

theorem intersect_no_solutions:
  assumes "len subspace \<le> length primes"
    and "potassco_handle e w (active_primes e primes (to_dict e primes subspace)) type'
           (if type' = ''max'' then Some (B 1, N) else None) (Some []) max_output fname_asp
           representation None = (Inr [], w1)"
  shows "trapspaces_that_intersect_subspace e w primes subspace type' fname_asp representation
           max_output
         = (Inr [if representation = ''str'' then SubStr (subspace2str e primes []) else Sub []],
            w1)"
  using assms by (simp add: trapspaces_that_intersect_subspace_def Let_def)

theorem intersect_no_solutions_witness:
  "len (AsDict [(''a'', 1)]) \<le> length net_a
   \<and> fst (potassco_handle env_none world0
            (active_primes env_none net_a (to_dict env_none net_a (AsDict [(''a'', 1)]))) ''max''
            (if ''max'' = ''max'' then Some (B 1, N) else None) (Some []) 10 (Some ''f.asp'')
            ''str'' None) = Inr []
   \<and> fst (trapspaces_that_intersect_subspace env_none world0 net_a (AsDict [(''a'', 1)]) ''max''
            (Some ''f.asp'') ''str'' 10)
       = Inr [SubStr ''-'']"
proof -
  let ?call = "potassco_handle env_none world0
            (active_primes env_none net_a (to_dict env_none net_a (AsDict [(''a'', 1)]))) ''max''
            (if ''max'' = ''max'' then Some (B 1, N) else None) (Some []) 10 (Some ''f.asp'')
            ''str'' None"
  have small: "len (AsDict [(''a'', 1)]) \<le> length net_a"
    by (simp add: net_a_def)
  have same: "active_primes env_none net_a (to_dict env_none net_a (AsDict [(''a'', 1)])) = net_a"
    by (simp add: env_none_def env_two_def)
  have none: "fst ?call = Inr []"
    unfolding same by (simp add: potassco_handle_none)
  then have run: "?call = (Inr [], snd ?call)"
    by (metis prod.collapse)
  have str: "subspace2str env_none net_a [] = ''-''"
    by (simp add: env_none_def env_two_def)
  from intersect_no_solutions [OF small run] str
  have "fst (trapspaces_that_intersect_subspace env_none world0 net_a (AsDict [(''a'', 1)])
          ''max'' (Some ''f.asp'') ''str'' 10) = Inr [SubStr ''-'']"
    by simp
  with small none show ?thesis by simp
qed

text \<open>
  C6, as the code has it. The first line of the program carries the date of the
  invocation. Two invocations on the same primes, bounds, projection, variant and extra lines
  give texts that agree in every line after the first, so the texts are the same when the
  date is the same. The lines of the arcs follow the five other lines of the header: the
  \<open>k\<close>-th arc, counted from 0 over the names in sorted order, value 0 before value 1, has the
  identifier \<open>k + 1\<close>.
\<close>

theorem encoder_reproducible:
  assumes "primes2asp e1 w1 primes f1 bounds project type' extra_lines = (Inr t1, w1')"
    and "primes2asp e2 w2 primes f2 bounds project type' extra_lines = (Inr t2, w2')"
  shows "(\<exists>rest. t1 = py_join nl (created_on (today e1) # rest)
               \<and> t2 = py_join nl (created_on (today e2) # rest)
               \<and> take (length (arcs_in_order primes)) (drop 5 rest)
                   = map arc_line (enumerate 0 (arcs_in_order primes)))
       \<and> (today e1 = today e2 \<longrightarrow> t1 = t2)
       \<and> sorted (map fst (arcs_in_order primes))"
proof -
  let ?rest = "body primes bounds project type' extra_lines"
  have t1: "t1 = py_join nl (created_on (today e1) # ?rest)"
    using primes2asp_Inr [OF assms(1)] by (simp add: asp_lines_body)
  have t2: "t2 = py_join nl (created_on (today e2) # ?rest)"
    using primes2asp_Inr [OF assms(2)] by (simp add: asp_lines_body)
  from t1 t2 body_arcs [of primes bounds project type' extra_lines] sorted_arcs [of primes]
  show ?thesis by auto
qed

theorem encoder_reproducible_witness:
  "fst (primes2asp env_two world0 net_a (Some ''f.asp'') None None (Some ''all'') None)
     = Inr (py_join nl (asp_lines ''04. Nov. 2026'' net_a None None (Some ''all'') None))
   \<and> fst (primes2asp env_next_day world0 net_a (Some ''g.asp'') None None (Some ''all'') None)
     = Inr (py_join nl (asp_lines ''05. Nov. 2026'' net_a None None (Some ''all'') None))
   \<and> (\<exists>rest. py_join nl (asp_lines ''04. Nov. 2026'' net_a None None (Some ''all'') None)
                = py_join nl (created_on (today env_two) # rest)
             \<and> py_join nl (asp_lines ''05. Nov. 2026'' net_a None None (Some ''all'') None)
                = py_join nl (created_on (today env_next_day) # rest)
             \<and> take (length (arcs_in_order net_a)) (drop 5 rest)
                = map arc_line (enumerate 0 (arcs_in_order net_a)))
   \<and> map arc_line (enumerate 0 (arcs_in_order net_a))
     = [''target(\"a\",0,a1). source(\"a\",0,a1).'', ''target(\"a\",1,a2). source(\"a\",1,a2).'']"
proof -
  let ?c1 = "primes2asp env_two world0 net_a (Some ''f.asp'') None None (Some ''all'') None"
  let ?c2 = "primes2asp env_next_day world0 net_a (Some ''g.asp'') None None (Some ''all'') None"
  let ?t1 = "py_join nl (asp_lines ''04. Nov. 2026'' net_a None None (Some ''all'') None)"
  let ?t2 = "py_join nl (asp_lines ''05. Nov. 2026'' net_a None None (Some ''all'') None)"
  have f1: "fst ?c1 = Inr ?t1"
    by (simp add: primes2asp_def valid_types_def env_two_def Let_def)
  have f2: "fst ?c2 = Inr ?t2"
    by (simp add: primes2asp_def valid_types_def env_two_def env_next_day_def Let_def)
  have r1: "?c1 = (Inr ?t1, snd ?c1)" using f1 by (metis prod.collapse)
  have r2: "?c2 = (Inr ?t2, snd ?c2)" using f2 by (metis prod.collapse)
  have lines: "map arc_line (enumerate 0 (arcs_in_order net_a))
      = [''target(\"a\",0,a1). source(\"a\",0,a1).'', ''target(\"a\",1,a2). source(\"a\",1,a2).'']"
    by code_simp
  from encoder_reproducible [OF r1 r2]
  have "\<exists>rest. ?t1 = py_join nl (created_on (today env_two) # rest)
             \<and> ?t2 = py_join nl (created_on (today env_next_day) # rest)
             \<and> take (length (arcs_in_order net_a)) (drop 5 rest)
                = map arc_line (enumerate 0 (arcs_in_order net_a))"
    by (rule conjunct1)
  with f1 f2 lines show ?thesis by (intro conjI)
qed

text \<open>
  C6 as it is stated fails: the same inputs on two days give two different texts.
\<close>

theorem encoder_date_counterexample:
  "fst (primes2asp env_two world0 net_a (Some ''f.asp'') None None (Some ''all'') None)
   \<noteq> fst (primes2asp env_next_day world0 net_a (Some ''f.asp'') None None (Some ''all'') None)"
proof
  let ?rest = "body net_a None None (Some ''all'') None"
  assume "fst (primes2asp env_two world0 net_a (Some ''f.asp'') None None (Some ''all'') None)
   = fst (primes2asp env_next_day world0 net_a (Some ''f.asp'') None None (Some ''all'') None)"
  then have "py_join nl (created_on ''04. Nov. 2026'' # ?rest)
      = py_join nl (created_on ''05. Nov. 2026'' # ?rest)"
    by (simp add: primes2asp_def Let_def valid_types_def env_two_def env_next_day_def
        asp_lines_body)
  then have "take (length (created_on ''04. Nov. 2026''))
               (py_join nl (created_on ''04. Nov. 2026'' # ?rest))
           = take (length (created_on ''05. Nov. 2026''))
               (py_join nl (created_on ''05. Nov. 2026'' # ?rest))"
    by (simp add: created_on_def)
  then have "created_on ''04. Nov. 2026'' = created_on ''05. Nov. 2026''"
    by (simp only: py_join_first)
  then show False by (simp add: created_on_def)
qed

text \<open>
  C7. When the decoder returns, it returns at most \<open>m\<close> solutions for a cap \<open>m \<ge> 0\<close>; the
  notice that there may be more is logged exactly when \<open>m\<close> solutions were collected; and once
  \<open>m\<close> solutions are collected, whatever follows in the output is not read: the decoder
  returns the same solutions, without an error, for any continuation of the output.
\<close>

theorem decode_cap:
  assumes "decode type' output m w = (Inr result, w')"
  shows "(0 \<le> m \<longrightarrow> int (length result) \<le> m)
       \<and> w' = (if int (length result) = m then w\<lparr>logged := logged w @ possibly_more m\<rparr> else w)
       \<and> (int (length result) = m \<longrightarrow> decode type' (output @ nl @ rest) m w = (Inr result, w'))"
proof -
  let ?dec = "if type' = ''circuits'' then decode_circuit else decode_subspace"
  from assms(1) have run: "answers ?dec (split_on CHR 0x0A output) m [] = Inr result"
    and w': "w' = note_truncation m result w"
    by (auto simp: decode_def split: sum.splits)
  have "int (length result) \<le> m" if "0 \<le> m"
    using answers_at_most [OF run] that by simp
  moreover have "decode type' (output @ nl @ rest) m w = (Inr result, w')"
    if "int (length result) = m"
  proof -
    have "answers ?dec (split_on CHR 0x0A output @ split_on CHR 0x0A rest) m [] = Inr result"
      using run that by (rule answers_stop)
    then show ?thesis
      by (simp add: decode_def nl_def split_on_append w')
  qed
  ultimately show ?thesis
    using w' by (simp add: note_truncation_def)
qed

theorem decode_cap_witness:
  "decode ''min'' two_answers 1 world0
     = (Inr [Sub [(''a'', 1)]], world0\<lparr>logged := logged world0 @ possibly_more 1\<rparr>)
   \<and> (0::int) \<le> 1
   \<and> int (length [Sub [(''a'', 1)]]) \<le> 1
   \<and> decode ''min'' (two_answers @ nl @ ''Answer: 3'') 1 world0
     = (Inr [Sub [(''a'', 1)]], world0\<lparr>logged := logged world0 @ possibly_more 1\<rparr>)"
proof -
  have run: "decode ''min'' two_answers 1 world0
     = (Inr [Sub [(''a'', 1)]], world0\<lparr>logged := logged world0 @ possibly_more 1\<rparr>)"
    by (rule decode_two_answers)
  from decode_cap [OF run, of "''Answer: 3''"] run show ?thesis by simp
qed





text \<open>
  C10. With the empty list as projection \<^verbatim>\<open>primes2asp\<close> does what it does with no
  projection: the same result and the same effects; the directives it emits are those
  without projection, with no \<^verbatim>\<open>#show.\<close> line and with the line \<^verbatim>\<open>#show hit/2.\<close> among them.
\<close>

theorem primes2asp_empty_project:
  "primes2asp e w primes fname_asp bounds (Some []) type' extra_lines
     = primes2asp e w primes fname_asp bounds None type' extra_lines
   \<and> show_directives (known_project primes (Some [])) type' = show_directives None type'
   \<and> ''#show.'' \<notin> set (show_directives (known_project primes (Some [])) type')
   \<and> ''#show hit/2.'' \<in> set (show_directives (known_project primes (Some [])) type')"
  by (simp add: primes2asp_def asp_lines_def known_project_def show_directives_def)

theorem primes2asp_empty_project_witness:
  "fst (primes2asp env_two world0 net_a (Some ''f.asp'') None (Some []) (Some ''all'') None)
     = fst (primes2asp env_two world0 net_a (Some ''f.asp'') None None (Some ''all'') None)
   \<and> show_directives (known_project net_a (Some [])) (Some ''all'')
     = ['''', ''% show fixed nodes'', ''#show hit/2.'']"
  using primes2asp_empty_project
    [of env_two world0 net_a "Some ''f.asp''" None "Some ''all''" None]
  by (simp add: show_directives_def known_project_def)

end
